theory Spec2Isabelle
  imports Complex_Main "HOL-Library.AList" "HOL-Library.Sublist"
begin

section \<open>The sensor logger: data\<close>

text \<open>
  The program is one Python script, \<^verbatim>\<open>sensor_logger.py\<close>. It talks to four
  collaborators that are not part of it: the process environment, the SQLite Cloud
  connection, the two sensor drivers and the clock. What each call to a collaborator
  does is an input of the model (an \<open>outcome\<close>); what the script does with it is
  translated line by line. The operator's interrupt arrives during one of these calls.
  \<^verbatim>\<open>print\<close>, \<^verbatim>\<open>datetime.now\<close>, \<^verbatim>\<open>GPIO.setmode\<close>, \<^verbatim>\<open>GPIO.cleanup\<close> and
  \<^verbatim>\<open>conn.close\<close> are taken to return.
\<close>

text \<open>
  An external call returns a value, raises an exception that is an instance of
  Python's \<^verbatim>\<open>Exception\<close> (with its message), or is cut short by the operator's
  interrupt, which Python delivers as \<^verbatim>\<open>KeyboardInterrupt\<close>.
\<close>

datatype 'a outcome = Returns 'a | Fails string | Interrupt

text \<open>
  The exceptions that travel through the script. \<^verbatim>\<open>KeyboardInterrupt\<close> and
  \<^verbatim>\<open>SystemExit\<close> derive from \<^verbatim>\<open>BaseException\<close>, so \<^verbatim>\<open>except Exception\<close> does not
  catch them. \<^verbatim>\<open>exit()\<close> raises \<^verbatim>\<open>SystemExit\<close> with no code.
\<close>

datatype exn = Exception string | KeyboardInterrupt | SystemExit

text \<open>
  How a piece of code ends: it returns a value, it raises, or (the \<^verbatim>\<open>while True\<close>
  loop only) it is still iterating when the finite list of ticks given to the model is
  used up.
\<close>

datatype 'a ctl = Normal 'a | Raised exn | Unfinished

subsection \<open>The remote database\<close>

datatype val = VText string | VInt int | VReal real

record table =
  columns :: "(string \<times> string) list"
  last_id :: nat
  rows :: "(nat \<times> (string \<times> val) list) list"

type_synonym store = "(string \<times> table) list"

datatype stmt =
    CreateTableIfNotExists string "(string \<times> string) list"
  | InsertInto string "(string \<times> val) list"

text \<open>
  The server side of a statement. SQLite Cloud runs each statement in autocommit mode:
  a statement that returns has taken effect as a whole, one that is rejected has changed
  nothing. \<^verbatim>\<open>CREATE TABLE IF NOT EXISTS\<close> leaves an existing table of that name alone;
  \<^verbatim>\<open>INSERT\<close> is rejected when the table or one of the named columns is missing, and
  otherwise appends one row whose \<^verbatim>\<open>id\<close> is the next \<^verbatim>\<open>AUTOINCREMENT\<close> value.
\<close>

fun run_stmt :: "stmt \<Rightarrow> store \<Rightarrow> string + store" where
  "run_stmt (CreateTableIfNotExists name cols) d =
     (case map_of d name of
        Some t \<Rightarrow> Inr d
      | None \<Rightarrow> Inr (d @ [(name, \<lparr>columns = cols, last_id = 0, rows = []\<rparr>)]))"
| "run_stmt (InsertInto name cells) d =
     (case map_of d name of
        None \<Rightarrow> Inl (''no such table: '' @ name)
      | Some t \<Rightarrow>
          if list_all (\<lambda>c. c \<in> set (map fst (columns t))) (map fst cells)
          then Inr (AList.update name
                 (t\<lparr>last_id := Suc (last_id t),
                    rows := rows t @ [(Suc (last_id t), cells)]\<rparr>) d)
          else Inl (''table '' @ name @ '' has no such column''))"

subsection \<open>The observable state\<close>

text \<open>
  Every \<^verbatim>\<open>print\<close> of the script is one constructor, with the values it formats. The
  traceback Python writes for an uncaught exception is a message too.
\<close>

datatype msg =
    ConnectedToSQLiteCloud
  | FailedToConnect string
  | TablesAreReady
  | FailedToCreateTables string
  | RecordInsertedMotion string int
  | ErrorInsertingMotion string
  | RecordInsertedTemperature string real
  | ErrorInsertingTemperature string
  | SystemTest
  | Ready
  | TemperatureLine real
  | MotionDetected
  | NoMotion
  | ErrorLine string
  | Quit
  | CleanedUp
  | Traceback exn

datatype call =
    Connect string
  | Execute stmt
  | Commit
  | SensorInit
  | GpioSetmode
  | GpioSetup nat
  | GetTemperature
  | GpioInput nat
  | Sleep nat
  | GpioCleanup
  | ConnClose

datatype result = Ok | Err string | Intr

record state =
  db :: store
  console :: "msg list"
  trace :: "(call \<times> result) list"

type_synonym 'a prog = "state \<Rightarrow> 'a ctl \<times> state"

subsection \<open>What the collaborators do\<close>

record tick_world =
  get_temperature :: "real outcome"
  gpio_input :: "int outcome"
  now_isoformat :: string
  temperature_execute :: "unit outcome"
  temperature_commit :: "unit outcome"
  motion_execute :: "unit outcome"
  motion_commit :: "unit outcome"
  sleep_interrupted :: bool

record world =
  API_KEY :: "string option"
  DATABASE_URL :: "string option"
  DB_NAME :: "string option"
  connect :: "unit outcome"
  sensor_init :: "unit outcome"
  gpio_setup :: "unit outcome"
  create_motion_execute :: "unit outcome"
  create_temperature_execute :: "unit outcome"
  create_commit :: "unit outcome"
  startup_sleep_interrupted :: bool
  ticks :: "tick_world list"

section \<open>Python's control flow\<close>

definition ret :: "'a \<Rightarrow> 'a prog" where
  "ret v s = (Normal v, s)"

definition raise :: "exn \<Rightarrow> 'a prog" where
  "raise e s = (Raised e, s)"

definition bind :: "'a prog \<Rightarrow> ('a \<Rightarrow> 'b prog) \<Rightarrow> 'b prog" where
  "bind m f s =
     (case m s of
        (Normal v, s') \<Rightarrow> f v s'
      | (Raised e, s') \<Rightarrow> (Raised e, s')
      | (Unfinished, s') \<Rightarrow> (Unfinished, s'))"

definition seq :: "'a prog \<Rightarrow> 'b prog \<Rightarrow> 'b prog" where
  "seq m n = bind m (\<lambda>_. n)"

text \<open>\<^verbatim>\<open>try: body  except Exception as e: handler\<close>\<close>

definition try_except_Exception :: "'a prog \<Rightarrow> (string \<Rightarrow> 'a prog) \<Rightarrow> 'a prog" where
  "try_except_Exception body handler s =
     (case body s of
        (Raised (Exception e), s') \<Rightarrow> handler e s'
      | r \<Rightarrow> r)"

text \<open>\<^verbatim>\<open>try: body  except KeyboardInterrupt: handler\<close>\<close>

definition try_except_KeyboardInterrupt :: "'a prog \<Rightarrow> 'a prog \<Rightarrow> 'a prog" where
  "try_except_KeyboardInterrupt body handler s =
     (case body s of
        (Raised KeyboardInterrupt, s') \<Rightarrow> handler s'
      | r \<Rightarrow> r)"

text \<open>
  \<^verbatim>\<open>try: body  finally: cleanup\<close>. The cleanup runs when the body has returned or
  raised, and the body's exception goes on afterwards unless the cleanup raises one of
  its own. A body that is still running has not reached it.
\<close>

definition try_finally :: "unit prog \<Rightarrow> unit prog \<Rightarrow> unit prog" where
  "try_finally body cleanup s =
     (case body s of
        (Unfinished, s') \<Rightarrow> (Unfinished, s')
      | (r, s') \<Rightarrow>
          (case cleanup s' of
             (Normal u, s'') \<Rightarrow> (r, s'')
           | r' \<Rightarrow> r'))"

definition print_msg :: "msg \<Rightarrow> unit prog" where
  "print_msg m s = (Normal (), s\<lparr>console := console s @ [m]\<rparr>)"

definition called :: "call \<Rightarrow> result \<Rightarrow> state \<Rightarrow> state" where
  "called c r s = s\<lparr>trace := trace s @ [(c, r)]\<rparr>"

text \<open>A call to a collaborator that touches nothing the model keeps.\<close>

definition extcall :: "call \<Rightarrow> 'a outcome \<Rightarrow> 'a prog" where
  "extcall c out s =
     (case out of
        Returns v \<Rightarrow> (Normal v, called c Ok s)
      | Fails e \<Rightarrow> (Raised (Exception e), called c (Err e) s)
      | Interrupt \<Rightarrow> (Raised KeyboardInterrupt, called c Intr s))"

text \<open>
  \<^verbatim>\<open>conn.execute(query, params)\<close>: the statement reaches the server only when the
  transport does not fail, and then the server may still reject it.
\<close>

definition conn_execute :: "unit outcome \<Rightarrow> stmt \<Rightarrow> unit prog" where
  "conn_execute net q s =
     (case net of
        Returns u \<Rightarrow>
          (case run_stmt q (db s) of
             Inr d \<Rightarrow> (Normal (), called (Execute q) Ok (s\<lparr>db := d\<rparr>))
           | Inl e \<Rightarrow> (Raised (Exception e), called (Execute q) (Err e) s))
      | Fails e \<Rightarrow> (Raised (Exception e), called (Execute q) (Err e) s)
      | Interrupt \<Rightarrow> (Raised KeyboardInterrupt, called (Execute q) Intr s))"

text \<open>\<^verbatim>\<open>conn.commit()\<close>: under autocommit it changes no table.\<close>

definition conn_commit :: "unit outcome \<Rightarrow> unit prog" where
  "conn_commit net = extcall Commit net"

text \<open>\<^verbatim>\<open>time.sleep(n)\<close> raises nothing of its own; the interrupt can end it.\<close>

definition sleep :: "nat \<Rightarrow> bool \<Rightarrow> unit prog" where
  "sleep n interrupted = extcall (Sleep n) (if interrupted then Interrupt else Returns ())"

section \<open>The script\<close>

definition create_motion_table_query :: stmt where
  "create_motion_table_query =
     CreateTableIfNotExists ''motion''
       [(''id'', ''INTEGER PRIMARY KEY AUTOINCREMENT''),
        (''timestamp'', ''TEXT NOT NULL''),
        (''motion_detected'', ''INTEGER NOT NULL'')]"

definition create_temperature_table_query :: stmt where
  "create_temperature_table_query =
     CreateTableIfNotExists ''temperature''
       [(''id'', ''INTEGER PRIMARY KEY AUTOINCREMENT''),
        (''timestamp'', ''TEXT NOT NULL''),
        (''temperature'', ''REAL NOT NULL'')]"

definition create_tables_if_not_exists ::
    "unit outcome \<Rightarrow> unit outcome \<Rightarrow> unit outcome \<Rightarrow> unit prog" where
  "create_tables_if_not_exists net_motion net_temperature net_commit =
     try_except_Exception
       (seq (conn_execute net_motion create_motion_table_query)
       (seq (conn_execute net_temperature create_temperature_table_query)
       (seq (conn_commit net_commit)
            (print_msg TablesAreReady))))
       (\<lambda>e. print_msg (FailedToCreateTables e))"

definition insert_motion_query :: "int \<Rightarrow> string \<Rightarrow> stmt" where
  "insert_motion_query motion_detected timestamp =
     InsertInto ''motion''
       [(''timestamp'', VText timestamp), (''motion_detected'', VInt motion_detected)]"

definition insert_motion :: "unit outcome \<Rightarrow> unit outcome \<Rightarrow> int \<Rightarrow> string \<Rightarrow> unit prog" where
  "insert_motion net_execute net_commit motion_detected timestamp =
     try_except_Exception
       (seq (conn_execute net_execute (insert_motion_query motion_detected timestamp))
       (seq (conn_commit net_commit)
            (print_msg (RecordInsertedMotion timestamp motion_detected))))
       (\<lambda>e. print_msg (ErrorInsertingMotion e))"

definition insert_temperature_query :: "real \<Rightarrow> string \<Rightarrow> stmt" where
  "insert_temperature_query temperature timestamp =
     InsertInto ''temperature''
       [(''timestamp'', VText timestamp), (''temperature'', VReal temperature)]"

definition insert_temperature ::
    "unit outcome \<Rightarrow> unit outcome \<Rightarrow> real \<Rightarrow> string \<Rightarrow> unit prog" where
  "insert_temperature net_execute net_commit temperature timestamp =
     try_except_Exception
       (seq (conn_execute net_execute (insert_temperature_query temperature timestamp))
       (seq (conn_commit net_commit)
            (print_msg (RecordInsertedTemperature timestamp temperature))))
       (\<lambda>e. print_msg (ErrorInsertingTemperature e))"

definition PIR_PIN :: nat where
  "PIR_PIN = 23"

text \<open>The body of the inner \<^verbatim>\<open>try\<close> of the loop.\<close>

definition tick_body :: "tick_world \<Rightarrow> unit prog" where
  "tick_body w =
     bind (extcall GetTemperature (get_temperature w)) (\<lambda>temperature_celsius.
     seq (print_msg (TemperatureLine temperature_celsius))
     (bind (extcall (GpioInput PIR_PIN) (gpio_input w)) (\<lambda>motion_state.
     bind (ret (now_isoformat w)) (\<lambda>timestamp.
     seq (insert_temperature (temperature_execute w) (temperature_commit w)
            temperature_celsius timestamp)
     (seq (insert_motion (motion_execute w) (motion_commit w) motion_state timestamp)
          (if motion_state \<noteq> 0 then print_msg MotionDetected else print_msg NoMotion))))))"

text \<open>One pass of the \<^verbatim>\<open>while True\<close> body: the guarded part, then \<^verbatim>\<open>time.sleep(1)\<close>.\<close>

definition tick :: "tick_world \<Rightarrow> unit prog" where
  "tick w =
     seq (try_except_Exception (tick_body w) (\<lambda>e. print_msg (ErrorLine e)))
         (sleep 1 (sleep_interrupted w))"

fun main_loop :: "tick_world list \<Rightarrow> unit prog" where
  "main_loop [] s = (Unfinished, s)"
| "main_loop (w # ws) s = seq (tick w) (main_loop ws) s"

text \<open>
  \<^verbatim>\<open>not x\<close> for the result of \<^verbatim>\<open>os.getenv\<close>: true of \<^verbatim>\<open>None\<close> and of the empty
  string. An f-string formats \<^verbatim>\<open>None\<close> as the text \<^verbatim>\<open>None\<close>.
\<close>

fun py_not :: "string option \<Rightarrow> bool" where
  "py_not None = True"
| "py_not (Some v) = (v = [])"

fun fmt :: "string option \<Rightarrow> string" where
  "fmt None = ''None''"
| "fmt (Some v) = v"

definition connection_string :: "world \<Rightarrow> string" where
  "connection_string w = fmt (DATABASE_URL w) @ ''/'' @ fmt (DB_NAME w) @ ''?apikey='' @ fmt (API_KEY w)"

text \<open>Lines 44 to 138: everything before the outer \<^verbatim>\<open>try\<close>.\<close>

definition startup :: "world \<Rightarrow> unit prog" where
  "startup w =
     (if py_not (API_KEY w) \<or> py_not (DATABASE_URL w) \<or> py_not (DB_NAME w)
      then raise (Exception ''Missing environment variables for API_KEY, DATABASE_URL, or DB_NAME'')
      else
        seq (try_except_Exception
               (seq (extcall (Connect (connection_string w)) (connect w))
                    (print_msg ConnectedToSQLiteCloud))
               (\<lambda>e. seq (print_msg (FailedToConnect e)) (raise SystemExit)))
       (seq (extcall SensorInit (sensor_init w))
       (seq (extcall GpioSetmode (Returns ()))
       (seq (extcall (GpioSetup PIR_PIN) (gpio_setup w))
            (create_tables_if_not_exists (create_motion_execute w)
               (create_temperature_execute w) (create_commit w))))))"

text \<open>
  Lines 140 to 178. \<^verbatim>\<open>GPIO.cleanup()\<close> and \<^verbatim>\<open>conn.close()\<close> release what was
  acquired and are taken to return.
\<close>

definition main_block :: "world \<Rightarrow> unit prog" where
  "main_block w =
     try_finally
       (try_except_KeyboardInterrupt
          (seq (print_msg SystemTest)
          (seq (sleep 2 (startup_sleep_interrupted w))
          (seq (print_msg Ready)
               (main_loop (ticks w)))))
          (print_msg Quit))
       (seq (extcall GpioCleanup (Returns ()))
       (seq (extcall ConnClose (Returns ()))
            (print_msg CleanedUp)))"

definition program :: "world \<Rightarrow> unit prog" where
  "program w = seq (startup w) (main_block w)"

text \<open>
  What the interpreter does with the way the script ends: exit status 0 at the end of the
  script and on \<^verbatim>\<open>SystemExit\<close> without a code; a traceback and status 1 on an uncaught
  \<^verbatim>\<open>Exception\<close>; a traceback and death by \<^verbatim>\<open>SIGINT\<close> on an uncaught
  \<^verbatim>\<open>KeyboardInterrupt\<close>.
\<close>

datatype status = Running | Exited nat | KilledBySigint

definition initial :: "store \<Rightarrow> state" where
  "initial d = \<lparr>db = d, console = [], trace = []\<rparr>"

definition run :: "world \<Rightarrow> store \<Rightarrow> status \<times> state" where
  "run w d =
     (case program w (initial d) of
        (Normal u, s) \<Rightarrow> (Exited 0, s)
      | (Raised SystemExit, s) \<Rightarrow> (Exited 0, s)
      | (Raised (Exception e), s) \<Rightarrow> (Exited 1, s\<lparr>console := console s @ [Traceback (Exception e)]\<rparr>)
      | (Raised KeyboardInterrupt, s) \<Rightarrow> (KilledBySigint, s\<lparr>console := console s @ [Traceback KeyboardInterrupt]\<rparr>)
      | (Unfinished, s) \<Rightarrow> (Running, s))"

section \<open>Assertions and example inputs\<close>

text \<open>
  The definitions below are used to state and prove properties of the script; none of
  them is part of it.
\<close>

subsection \<open>Observations on a state\<close>

text \<open>The rows of a table, the calls made between two states, the calls that acquire or
  release a resource, and the calls to \<^verbatim>\<open>sqlitecloud.connect\<close>.\<close>

definition rows_of :: "string \<Rightarrow> store \<Rightarrow> (nat \<times> (string \<times> val) list) list" where
  "rows_of name d = (case map_of d name of None \<Rightarrow> [] | Some t \<Rightarrow> rows t)"

definition calls_since :: "state \<Rightarrow> state \<Rightarrow> call list" where
  "calls_since s s' = map fst (drop (length (trace s)) (trace s'))"



text \<open>The number of cadence sleeps, \<^verbatim>\<open>time.sleep(1)\<close>, that have returned.\<close>

definition cadence_sleeps :: "state \<Rightarrow> nat" where
  "cadence_sleeps s = length (filter (\<lambda>e. e = (Sleep 1, Ok)) (trace s))"


text \<open>
  The message of an error a call raised, and the message a diagnostic line of the
  script prints. Every error raised so far has been printed when the two lists agree.
\<close>

fun error_of :: "call \<times> result \<Rightarrow> string option" where
  "error_of (c, Err e) = Some e"
| "error_of (c, r) = None"

fun diagnostic_of :: "msg \<Rightarrow> string option" where
  "diagnostic_of (FailedToCreateTables e) = Some e"
| "diagnostic_of (ErrorInsertingMotion e) = Some e"
| "diagnostic_of (ErrorInsertingTemperature e) = Some e"
| "diagnostic_of (ErrorLine e) = Some e"
| "diagnostic_of m = None"

definition all_logged :: "state \<Rightarrow> bool" where
  "all_logged s = (List.map_filter error_of (trace s) = List.map_filter diagnostic_of (console s))"

subsection \<open>Conditions on what the collaborators do\<close>

text \<open>No call of the tick is cut short by the operator's interrupt.\<close>

definition uninterrupted :: "tick_world \<Rightarrow> bool" where
  "uninterrupted w =
     (get_temperature w \<noteq> Interrupt \<and> gpio_input w \<noteq> Interrupt \<and>
      temperature_execute w \<noteq> Interrupt \<and> temperature_commit w \<noteq> Interrupt \<and>
      motion_execute w \<noteq> Interrupt \<and> motion_commit w \<noteq> Interrupt \<and>
      \<not> sleep_interrupted w)"

text \<open>The condition of the check at line 50.\<close>

definition missing_config :: "world \<Rightarrow> bool" where
  "missing_config w = (py_not (API_KEY w) \<or> py_not (DATABASE_URL w) \<or> py_not (DB_NAME w))"

text \<open>The first call of schema creation that fails, fails with the message \<open>e\<close>.\<close>

definition schema_fails :: "world \<Rightarrow> string \<Rightarrow> bool" where
  "schema_fails w e =
     (create_motion_execute w = Fails e
      \<or> (create_motion_execute w = Returns () \<and> create_temperature_execute w = Fails e)
      \<or> (create_motion_execute w = Returns () \<and> create_temperature_execute w = Returns () \<and>
         create_commit w = Fails e))"

subsection \<open>Names for parts of the script\<close>

text \<open>Schema creation on a connection that works.\<close>

definition schema_ensure :: "unit prog" where
  "schema_ensure = create_tables_if_not_exists (Returns ()) (Returns ()) (Returns ())"

text \<open>What the two \<^verbatim>\<open>CREATE TABLE IF NOT EXISTS\<close> statements make of a database.\<close>

definition ensured :: "store \<Rightarrow> store" where
  "ensured d =
     (let d1 = (if ''motion'' \<in> fst ` set d then d
                else d @ [(''motion'', \<lparr>columns = [(''id'', ''INTEGER PRIMARY KEY AUTOINCREMENT''),
                   (''timestamp'', ''TEXT NOT NULL''), (''motion_detected'', ''INTEGER NOT NULL'')],
                   last_id = 0, rows = []\<rparr>)])
      in if ''temperature'' \<in> fst ` set d1 then d1
         else d1 @ [(''temperature'', \<lparr>columns = [(''id'', ''INTEGER PRIMARY KEY AUTOINCREMENT''),
                   (''timestamp'', ''TEXT NOT NULL''), (''temperature'', ''REAL NOT NULL'')],
                   last_id = 0, rows = []\<rparr>)])"

text \<open>The body of the outer \<^verbatim>\<open>try\<close>, lines 141 to 171.\<close>

definition main_try :: "world \<Rightarrow> unit prog" where
  "main_try w =
     seq (print_msg SystemTest)
    (seq (sleep 2 (startup_sleep_interrupted w))
    (seq (print_msg Ready)
         (main_loop (ticks w))))"


subsection \<open>Triples\<close>

text \<open>
  A triple relates the state before a piece of code to the way it ends and the state it
  leaves. The value a piece of code returns plays no part in the assertions, so the
  postcondition sees the way it ends with the value forgotten. An assertion is
  maintained when it holds, of the way the code ends, whenever it held of a normal
  start.
\<close>

fun forget :: "'a ctl \<Rightarrow> unit ctl" where
  "forget (Normal v) = Normal ()"
| "forget (Raised e) = Raised e"
| "forget Unfinished = Unfinished"

definition triple :: "(state \<Rightarrow> bool) \<Rightarrow> 'a prog \<Rightarrow> (unit ctl \<Rightarrow> state \<Rightarrow> bool) \<Rightarrow> bool" where
  "triple P m Q = (\<forall>s. P s \<longrightarrow> Q (forget (fst (m s))) (snd (m s)))"

definition maintains :: "(unit ctl \<Rightarrow> state \<Rightarrow> bool) \<Rightarrow> 'a prog \<Rightarrow> bool" where
  "maintains Q m = triple (Q (Normal ())) m Q"

text \<open>
  Every error raised has been printed, except the one that is on its way to a handler.
\<close>

fun pending :: "unit ctl \<Rightarrow> string list" where
  "pending (Raised (Exception e)) = [e]"
| "pending r = []"

definition logged :: "unit ctl \<Rightarrow> state \<Rightarrow> bool" where
  "logged r s =
     (List.map_filter error_of (trace s) = List.map_filter diagnostic_of (console s) @ pending r)"

text \<open>
  How code can end inside an \<^verbatim>\<open>except Exception\<close> guard, and how the guarded statement
  can end; \<open>X\<close> says whether an interrupt may arrive.
\<close>

definition within_try :: "bool \<Rightarrow> unit ctl \<Rightarrow> state \<Rightarrow> bool" where
  "within_try X r s =
     (r = Normal () \<or> (\<exists>e. r = Raised (Exception e)) \<or> (r = Raised KeyboardInterrupt \<and> X))"

definition after_try :: "bool \<Rightarrow> unit ctl \<Rightarrow> state \<Rightarrow> bool" where
  "after_try X r s = (r = Normal () \<or> (r = Raised KeyboardInterrupt \<and> X))"



text \<open>The cadence sleeps that have returned are so many.\<close>

definition slept :: "nat \<Rightarrow> unit ctl \<Rightarrow> state \<Rightarrow> bool" where
  "slept n r s = (cadence_sleeps s = n)"

text \<open>
  The trace has grown by calls that form a subsequence of the given list; a piece of
  code emits a list of calls when it makes the trace grow so from every state.
\<close>

definition grows :: "state \<Rightarrow> state \<Rightarrow> call list \<Rightarrow> bool" where
  "grows s s' A = (\<exists>es. trace s' = trace s @ es \<and> subseq (map fst es) A)"

definition emits :: "'a prog \<Rightarrow> call list \<Rightarrow> bool" where
  "emits m A = (\<forall>s. grows s (snd (m s)) A)"

subsection \<open>Example inputs\<close>

text \<open>A database with the two tables, empty, and one that holds an older temperature row.\<close>

definition ex_db :: store where
  "ex_db =
     [(''motion'', \<lparr>columns = [(''id'', ''INTEGER PRIMARY KEY AUTOINCREMENT''),
         (''timestamp'', ''TEXT NOT NULL''), (''motion_detected'', ''INTEGER NOT NULL'')],
         last_id = 0, rows = []\<rparr>),
      (''temperature'', \<lparr>columns = [(''id'', ''INTEGER PRIMARY KEY AUTOINCREMENT''),
         (''timestamp'', ''TEXT NOT NULL''), (''temperature'', ''REAL NOT NULL'')],
         last_id = 0, rows = []\<rparr>)]"

definition ex_db_old :: store where
  "ex_db_old =
     [(''temperature'', \<lparr>columns = [(''id'', ''INTEGER PRIMARY KEY AUTOINCREMENT''),
         (''timestamp'', ''TEXT NOT NULL''), (''temperature'', ''REAL NOT NULL'')],
         last_id = 1,
         rows = [(1, [(''timestamp'', VText ''2023-12-31T23:59:59''), (''temperature'', VReal 20)])]\<rparr>)]"

text \<open>
  A tick in which everything works, and ticks in which the probe fails, the connection
  is down for both statements, or the temperature statement alone is lost.
\<close>

definition ex_tick :: tick_world where
  "ex_tick = \<lparr>get_temperature = Returns 21.5, gpio_input = Returns 1,
     now_isoformat = ''2024-01-01T00:00:00'',
     temperature_execute = Returns (), temperature_commit = Returns (),
     motion_execute = Returns (), motion_commit = Returns (),
     sleep_interrupted = False\<rparr>"

definition ex_tick_no_sensor :: tick_world where
  "ex_tick_no_sensor = ex_tick\<lparr>get_temperature := Fails ''sensor not ready''\<rparr>"

definition ex_tick_db_down :: tick_world where
  "ex_tick_db_down = ex_tick\<lparr>temperature_execute := Fails ''connection lost'',
     motion_execute := Fails ''connection lost''\<rparr>"

definition ex_tick_conn_lost :: tick_world where
  "ex_tick_conn_lost = ex_tick\<lparr>temperature_execute := Fails ''connection lost''\<rparr>"

text \<open>
  A run in which everything works, and runs with an empty \<^verbatim>\<open>DB_NAME\<close>, with the first
  \<^verbatim>\<open>CREATE TABLE\<close> refused, with no connection, with an interrupt during the
  commit of schema creation, and with an interrupt during the sleep of the second tick.
\<close>

definition ex_world :: world where
  "ex_world = \<lparr>API_KEY = Some ''key'', DATABASE_URL = Some ''sqlitecloud://host:8860'',
     DB_NAME = Some ''sensors'', connect = Returns (), sensor_init = Returns (),
     gpio_setup = Returns (), create_motion_execute = Returns (),
     create_temperature_execute = Returns (), create_commit = Returns (),
     startup_sleep_interrupted = False, ticks = [ex_tick]\<rparr>"

definition ex_world_no_name :: world where
  "ex_world_no_name = ex_world\<lparr>DB_NAME := Some ''''\<rparr>"

definition ex_world_schema_denied :: world where
  "ex_world_schema_denied = ex_world\<lparr>create_motion_execute := Fails ''access denied''\<rparr>"

definition ex_world_unreachable :: world where
  "ex_world_unreachable = ex_world\<lparr>connect := Fails ''host unreachable''\<rparr>"



section \<open>Properties\<close>

subsection \<open>Rules for the control flow\<close>

lemmas flow_defs = ret_def raise_def bind_def seq_def try_except_Exception_def
  try_except_KeyboardInterrupt_def try_finally_def print_msg_def called_def extcall_def
  conn_execute_def conn_commit_def sleep_def

lemma triple_bind:
  assumes "triple P m M" and "\<And>v. triple (M (Normal ())) (f v) Q"
    and "\<And>r s. M r s \<Longrightarrow> r \<noteq> Normal () \<Longrightarrow> Q r s"
  shows "triple P (bind m f) Q"
  unfolding triple_def
proof (intro allI impI)
  fix s assume "P s"
  with assms(1) have m: "M (forget (fst (m s))) (snd (m s))" by (simp add: triple_def)
  show "Q (forget (fst (bind m f s))) (snd (bind m f s))"
  proof (cases "fst (m s)")
    case (Normal v)
    with m assms(2)[of v] show ?thesis
      by (simp add: triple_def bind_def split_beta)
  next
    case (Raised e)
    with m assms(3) show ?thesis by (simp add: bind_def split_beta)
  next
    case Unfinished
    with m assms(3) show ?thesis by (simp add: bind_def split_beta)
  qed
qed

lemma triple_seq:
  assumes "triple P m M" and "triple (M (Normal ())) n Q"
    and "\<And>r s. M r s \<Longrightarrow> r \<noteq> Normal () \<Longrightarrow> Q r s"
  shows "triple P (seq m n) Q"
  unfolding seq_def using assms by (rule triple_bind)

lemma triple_try_except:
  assumes "triple P body B" and "\<And>e. triple (B (Raised (Exception e))) (h e) Q"
    and "\<And>r s. B r s \<Longrightarrow> (\<forall>e. r \<noteq> Raised (Exception e)) \<Longrightarrow> Q r s"
  shows "triple P (try_except_Exception body h) Q"
  unfolding triple_def
proof (intro allI impI)
  fix s assume "P s"
  with assms(1) have b: "B (forget (fst (body s))) (snd (body s))" by (simp add: triple_def)
  show "Q (forget (fst (try_except_Exception body h s))) (snd (try_except_Exception body h s))"
  proof (cases "\<exists>e. fst (body s) = Raised (Exception e)")
    case True
    then obtain e where e: "fst (body s) = Raised (Exception e)" by blast
    with b assms(2)[of e] show ?thesis
      by (simp add: triple_def try_except_Exception_def split_beta)
  next
    case False
    then have "\<forall>e. forget (fst (body s)) \<noteq> Raised (Exception e)"
      by (cases "fst (body s)") auto
    with b assms(3) have "Q (forget (fst (body s))) (snd (body s))" by blast
    moreover from False have "try_except_Exception body h s = body s"
      by (auto simp: try_except_Exception_def split: prod.splits ctl.splits exn.splits)
    ultimately show ?thesis by simp
  qed
qed

lemma triple_conseq:
  assumes "triple P m Q" and "\<And>s. P' s \<Longrightarrow> P s" and "\<And>r s. Q r s \<Longrightarrow> Q' r s"
  shows "triple P' m Q'"
  using assms by (simp add: triple_def)

lemma maintains_bind:
  assumes "maintains Q m" and "\<And>v. maintains Q (f v)"
  shows "maintains Q (bind m f)"
  using assms unfolding maintains_def by (rule triple_bind)

lemma maintains_seq:
  assumes "maintains Q m" and "maintains Q n"
  shows "maintains Q (seq m n)"
  using assms unfolding seq_def by (simp add: maintains_bind)

lemma maintains_try_except:
  assumes "maintains Q body" and "\<And>e. triple (Q (Raised (Exception e))) (h e) Q"
  shows "maintains Q (try_except_Exception body h)"
  using assms unfolding maintains_def by (rule triple_try_except)

lemma maintains_ret: "maintains Q (ret v)"
  by (simp add: maintains_def triple_def ret_def)

lemma maintains_if:
  assumes "maintains Q m" and "maintains Q n"
  shows "maintains Q (if b then m else n)"
  using assms by simp

lemmas maintains_rules = maintains_bind maintains_seq maintains_try_except maintains_ret maintains_if

lemma maintainsD: "maintains Q m \<Longrightarrow> Q (Normal ()) s \<Longrightarrow> Q (forget (fst (m s))) (snd (m s))"
  by (simp add: maintains_def triple_def)

lemma triple_try_except_within:
  assumes "maintains B body" and "\<And>e. triple (B (Raised (Exception e))) (h e) Q"
    and "\<And>r s. B r s \<Longrightarrow> (\<forall>e. r \<noteq> Raised (Exception e)) \<Longrightarrow> Q r s"
  shows "triple (B (Normal ())) (try_except_Exception body h) Q"
  using assms unfolding maintains_def by (rule triple_try_except)

lemma main_loop_Cons: "main_loop (w # ws) = seq (tick w) (main_loop ws)"
  by (rule ext) simp

lemma maintains_main_loop:
  assumes "\<And>w. maintains Q (tick w)" and "\<And>s. Q (Normal ()) s \<Longrightarrow> Q Unfinished s"
  shows "maintains Q (main_loop ws)"
proof (induction ws)
  case Nil
  from assms(2) show ?case by (simp add: maintains_def triple_def)
next
  case (Cons w ws)
  with assms(1) show ?case by (simp only: main_loop_Cons maintains_seq)
qed

subsection \<open>Errors raised and errors printed\<close>

lemma map_filter_snoc:
  "List.map_filter f (xs @ [x]) = List.map_filter f xs @ (case f x of None \<Rightarrow> [] | Some y \<Rightarrow> [y])"
  by (simp add: List.map_filter_def split: option.splits)

lemma logged_extcall: "maintains logged (extcall c out)"
  by (simp add: maintains_def triple_def logged_def extcall_def called_def map_filter_snoc
      split: outcome.splits)

lemma logged_conn_execute: "maintains logged (conn_execute net q)"
  by (simp add: maintains_def triple_def logged_def conn_execute_def called_def map_filter_snoc
      split: outcome.splits sum.splits)

lemma logged_print: "diagnostic_of m = None \<Longrightarrow> maintains logged (print_msg m)"
  by (simp add: maintains_def triple_def logged_def print_msg_def map_filter_snoc)

lemma logged_handler:
  "diagnostic_of m = Some e \<Longrightarrow> triple (logged (Raised (Exception e))) (print_msg m) logged"
  by (simp add: triple_def logged_def print_msg_def map_filter_snoc)

lemmas logged_rules = logged_extcall logged_conn_execute logged_print logged_handler

lemma logged_insert_temperature: "maintains logged (insert_temperature a b t ts)"
  unfolding insert_temperature_def conn_commit_def
  by (intro maintains_rules logged_rules) simp_all

lemma logged_insert_motion: "maintains logged (insert_motion a b m ts)"
  unfolding insert_motion_def conn_commit_def
  by (intro maintains_rules logged_rules) simp_all

lemma logged_create_tables: "maintains logged (create_tables_if_not_exists a b c)"
  unfolding create_tables_if_not_exists_def conn_commit_def
  by (intro maintains_rules logged_rules) simp_all

lemma logged_tick: "maintains logged (tick w)"
  unfolding tick_def tick_body_def sleep_def
  by (intro maintains_rules logged_rules logged_insert_temperature logged_insert_motion) simp_all

lemma logged_main_loop: "maintains logged (main_loop ws)"
  by (rule maintains_main_loop) (simp_all add: logged_tick logged_def)

subsection \<open>How a tick can end\<close>

lemma within_extcall: "(out = Interrupt \<longrightarrow> X) \<Longrightarrow> maintains (within_try X) (extcall c out)"
  by (simp add: maintains_def triple_def within_try_def extcall_def split: outcome.splits)

lemma within_conn_execute:
  "(net = Interrupt \<longrightarrow> X) \<Longrightarrow> maintains (within_try X) (conn_execute net q)"
  by (simp add: maintains_def triple_def within_try_def conn_execute_def
      split: outcome.splits sum.splits)

lemma within_print: "maintains (within_try X) (print_msg m)"
  by (simp add: maintains_def triple_def within_try_def print_msg_def)

lemma after_print: "triple P (print_msg m) (after_try X)"
  by (simp add: triple_def after_try_def print_msg_def)

lemma within_after: "within_try X r s \<Longrightarrow> \<forall>e. r \<noteq> Raised (Exception e) \<Longrightarrow> after_try X r s"
  by (auto simp: within_try_def after_try_def)

lemma after_within: "triple (within_try X (Normal ())) m (after_try X) \<Longrightarrow> maintains (within_try X) m"
  unfolding maintains_def by (erule triple_conseq) (auto simp: within_try_def after_try_def)

lemmas within_rules = within_extcall within_conn_execute within_print

lemma after_insert_temperature:
  assumes "a = Interrupt \<longrightarrow> X" and "b = Interrupt \<longrightarrow> X"
  shows "triple (within_try X (Normal ())) (insert_temperature a b t ts) (after_try X)"
  unfolding insert_temperature_def conn_commit_def
  by (rule triple_try_except_within)
     (intro maintains_rules within_rules assms after_print within_after; assumption)+

lemma after_insert_motion:
  assumes "a = Interrupt \<longrightarrow> X" and "b = Interrupt \<longrightarrow> X"
  shows "triple (within_try X (Normal ())) (insert_motion a b m ts) (after_try X)"
  unfolding insert_motion_def conn_commit_def
  by (rule triple_try_except_within)
     (intro maintains_rules within_rules assms after_print within_after; assumption)+

lemma after_create_tables:
  assumes "a = Interrupt \<longrightarrow> X" and "b = Interrupt \<longrightarrow> X" and "c = Interrupt \<longrightarrow> X"
  shows "triple (within_try X (Normal ())) (create_tables_if_not_exists a b c) (after_try X)"
  unfolding create_tables_if_not_exists_def conn_commit_def
  by (rule triple_try_except_within)
     (intro maintains_rules within_rules assms after_print within_after; assumption)+

lemma within_tick_body:
  assumes "\<not> uninterrupted w \<longrightarrow> X"
  shows "maintains (within_try X) (tick_body w)"
  unfolding tick_body_def
  using assms
  by (intro maintains_rules within_rules after_within after_insert_temperature after_insert_motion)
     (auto simp: uninterrupted_def)

lemma after_tick:
  assumes "\<not> uninterrupted w \<longrightarrow> X"
  shows "triple (within_try X (Normal ())) (tick w) (after_try X)"
  unfolding tick_def
proof (rule triple_seq[where M = "after_try X"])
  show "triple (within_try X (Normal ())) (try_except_Exception (tick_body w) (\<lambda>e. print_msg (ErrorLine e))) (after_try X)"
    by (rule triple_try_except_within) (intro within_tick_body assms after_print within_after; assumption)+
  show "triple (after_try X (Normal ())) (sleep 1 (sleep_interrupted w)) (after_try X)"
    using assms
    by (auto simp: triple_def after_try_def sleep_def extcall_def uninterrupted_def)
qed simp

lemma tick_ctl: "fst (tick w s) = Normal () \<or> fst (tick w s) = Raised KeyboardInterrupt"
proof -
  have "after_try True (forget (fst (tick w s))) (snd (tick w s))"
    using after_tick[of w True] by (simp add: triple_def within_try_def)
  then show ?thesis by (cases "fst (tick w s)") (simp_all add: after_try_def)
qed

lemma tick_uninterrupted: "uninterrupted w \<Longrightarrow> fst (tick w s) = Normal ()"
proof -
  assume "uninterrupted w"
  then have "after_try False (forget (fst (tick w s))) (snd (tick w s))"
    using after_tick[of w False] by (simp add: triple_def within_try_def)
  then show ?thesis by (cases "fst (tick w s)") (simp_all add: after_try_def)
qed

lemma main_loop_ctl:
  "fst (main_loop ws s) = Unfinished \<or> fst (main_loop ws s) = Raised KeyboardInterrupt"
proof (induction ws arbitrary: s)
  case Nil
  show ?case by simp
next
  case (Cons w ws)
  from tick_ctl[of w s] Cons.IH[of "snd (tick w s)"] show ?case
    by (auto simp: seq_def bind_def split_beta)
qed

lemma main_loop_uninterrupted:
  "list_all uninterrupted ws \<Longrightarrow> fst (main_loop ws s) = Unfinished"
proof (induction ws arbitrary: s)
  case Nil
  show ?case by simp
next
  case (Cons w ws)
  then have "fst (tick w s) = Normal ()" by (simp add: tick_uninterrupted)
  with Cons show ?case by (simp add: seq_def bind_def split_beta)
qed

subsection \<open>Where an interrupt shows in the trace\<close>













subsection \<open>The calls a piece of code can make\<close>

lemma grows_refl: "grows s s []"
  by (simp add: grows_def)

lemma grows_trans:
  assumes "grows s s' A" and "grows s' s'' B"
  shows "grows s s'' (A @ B)"
proof -
  from assms obtain es fs where
    "trace s' = trace s @ es" "subseq (map fst es) A"
    "trace s'' = trace s' @ fs" "subseq (map fst fs) B"
    by (auto simp: grows_def)
  then have "trace s'' = trace s @ (es @ fs) \<and> subseq (map fst (es @ fs)) (A @ B)"
    by (simp add: list_emb_append_mono)
  then show ?thesis unfolding grows_def by blast
qed

lemma grows_weaken: "grows s s' A \<Longrightarrow> subseq A B \<Longrightarrow> grows s s' B"
  unfolding grows_def by (meson subseq_order.order_trans)

lemma grows_left: "grows s s' A \<Longrightarrow> grows s s' (A @ B)"
  by (erule grows_weaken) (simp add: list_emb_prefix)




lemma emits_ret: "emits (ret v) []"
  by (simp add: emits_def grows_def ret_def)

lemma emits_print: "emits (print_msg m) []"
  by (simp add: emits_def grows_def print_msg_def)

lemma emits_extcall: "emits (extcall c out) [c]"
  by (simp add: emits_def grows_def extcall_def called_def split: outcome.splits)

lemma emits_conn_execute: "emits (conn_execute net q) [Execute q]"
  by (simp add: emits_def grows_def conn_execute_def called_def split: outcome.splits sum.splits)

lemma emits_bind:
  assumes "emits m A" and "\<And>v. emits (f v) B"
  shows "emits (bind m f) (A @ B)"
  unfolding emits_def
proof
  fix s
  from assms(1) have m: "grows s (snd (m s)) A" by (simp add: emits_def)
  show "grows s (snd (bind m f s)) (A @ B)"
  proof (cases "fst (m s)")
    case (Normal v)
    from assms(2)[of v] have "grows (snd (m s)) (snd (f v (snd (m s)))) B" by (simp add: emits_def)
    with m Normal show ?thesis by (simp add: bind_def split_beta grows_trans)
  qed (use m in \<open>simp_all add: bind_def split_beta grows_left\<close>)
qed

lemma emits_seq: "emits m A \<Longrightarrow> emits n B \<Longrightarrow> emits (seq m n) (A @ B)"
  unfolding seq_def by (rule emits_bind)

lemma emits_try_except:
  assumes "emits body A" and "\<And>e. emits (h e) B"
  shows "emits (try_except_Exception body h) (A @ B)"
  unfolding emits_def
proof
  fix s
  from assms(1) have b: "grows s (snd (body s)) A" by (simp add: emits_def)
  show "grows s (snd (try_except_Exception body h s)) (A @ B)"
  proof (cases "\<exists>e. fst (body s) = Raised (Exception e)")
    case True
    then obtain e where e: "fst (body s) = Raised (Exception e)" by blast
    from assms(2)[of e] have "grows (snd (body s)) (snd (h e (snd (body s)))) B"
      by (simp add: emits_def)
    with b e show ?thesis by (simp add: try_except_Exception_def split_beta grows_trans)
  next
    case False
    then have "try_except_Exception body h s = body s"
      by (auto simp: try_except_Exception_def split: prod.splits ctl.splits exn.splits)
    with b show ?thesis by (simp add: grows_left)
  qed
qed

lemma emits_if: "emits m A \<Longrightarrow> emits n A \<Longrightarrow> emits (if b then m else n) A"
  by simp

lemmas emits_rules = emits_bind emits_seq emits_try_except emits_if emits_ret emits_print
  emits_extcall emits_conn_execute



lemma emits_create_tables:
  "emits (create_tables_if_not_exists a b c)
     [Execute create_motion_table_query, Execute create_temperature_table_query, Commit]"
proof -
  have "emits (create_tables_if_not_exists a b c)
     (([Execute create_motion_table_query] @ [Execute create_temperature_table_query] @ [Commit] @ []) @ [])"
    unfolding create_tables_if_not_exists_def conn_commit_def by (intro emits_rules)
  then show ?thesis by simp
qed


subsection \<open>A tick that succeeds\<close>

lemma run_insert_Inr:
  assumes "run_stmt (InsertInto name cells) d = Inr d'"
  shows "\<exists>t. map_of d name = Some t \<and>
     d' = AList.update name (t\<lparr>last_id := Suc (last_id t), rows := rows t @ [(Suc (last_id t), cells)]\<rparr>) d"
  using assms by (auto split: option.splits if_splits)

lemma rows_of_insert_same:
  assumes "run_stmt (InsertInto name cells) d = Inr d'"
  shows "\<exists>i. rows_of name d' = rows_of name d @ [(i, cells)]"
  using run_insert_Inr[OF assms] by (auto simp: rows_of_def update_conv')

lemma rows_of_insert_other:
  assumes "run_stmt (InsertInto name cells) d = Inr d'" "other \<noteq> name"
  shows "rows_of other d' = rows_of other d"
  using run_insert_Inr[OF assms(1)] assms(2) by (auto simp: rows_of_def update_conv')

lemma tick_body_success:
  assumes "get_temperature w = Returns t" "gpio_input w = Returns m"
    "temperature_execute w = Returns ()" "temperature_commit w = Returns ()"
    "motion_execute w = Returns ()" "motion_commit w = Returns ()"
    "run_stmt (insert_temperature_query t (now_isoformat w)) (db s) = Inr d1"
    "run_stmt (insert_motion_query m (now_isoformat w)) d1 = Inr d2"
  shows "tick_body w s = (Normal (), s\<lparr>db := d2,
     console := console s @ [TemperatureLine t, RecordInsertedTemperature (now_isoformat w) t,
        RecordInsertedMotion (now_isoformat w) m, if m \<noteq> 0 then MotionDetected else NoMotion],
     trace := trace s @ [(GetTemperature, Ok), (GpioInput PIR_PIN, Ok),
        (Execute (insert_temperature_query t (now_isoformat w)), Ok), (Commit, Ok),
        (Execute (insert_motion_query m (now_isoformat w)), Ok), (Commit, Ok)]\<rparr>)"
  using assms by (simp add: tick_body_def insert_temperature_def insert_motion_def flow_defs)

text \<open>
  Claim C1. In a tick whose two sensor reads return and whose two inserts go through
  (the transport returns and the server accepts the statement, for \<^verbatim>\<open>execute\<close> and
  \<^verbatim>\<open>commit\<close> alike), the \<^verbatim>\<open>temperature\<close> table gains exactly one row and the
  \<^verbatim>\<open>motion\<close> table exactly one, both with the timestamp read once in that tick, and
  the temperature insert is executed before the motion insert.
\<close>
theorem tick_records_pair:
  assumes "get_temperature w = Returns t" and "gpio_input w = Returns m"
    and "temperature_execute w = Returns ()" and "temperature_commit w = Returns ()"
    and "motion_execute w = Returns ()" and "motion_commit w = Returns ()"
    and "run_stmt (insert_temperature_query t (now_isoformat w)) (db s) = Inr d1"
    and "run_stmt (insert_motion_query m (now_isoformat w)) d1 = Inr d2"
  shows "\<exists>i j. rows_of ''temperature'' (db (snd (tick w s))) =
        rows_of ''temperature'' (db s) @
          [(i, [(''timestamp'', VText (now_isoformat w)), (''temperature'', VReal t)])]
    \<and> rows_of ''motion'' (db (snd (tick w s))) =
        rows_of ''motion'' (db s) @
          [(j, [(''timestamp'', VText (now_isoformat w)), (''motion_detected'', VInt m)])]
    \<and> calls_since s (snd (tick w s)) =
        [GetTemperature, GpioInput PIR_PIN,
         Execute (insert_temperature_query t (now_isoformat w)), Commit,
         Execute (insert_motion_query m (now_isoformat w)), Commit, Sleep 1]"
proof -
  from assms(7) obtain i where
    i: "rows_of ''temperature'' d1 = rows_of ''temperature'' (db s) @
          [(i, [(''timestamp'', VText (now_isoformat w)), (''temperature'', VReal t)])]"
    unfolding insert_temperature_query_def by (blast dest: rows_of_insert_same)
  from assms(7) have m1: "rows_of ''motion'' d1 = rows_of ''motion'' (db s)"
    unfolding insert_temperature_query_def by (rule rows_of_insert_other) simp
  from assms(8) obtain j where
    j: "rows_of ''motion'' d2 = rows_of ''motion'' d1 @
          [(j, [(''timestamp'', VText (now_isoformat w)), (''motion_detected'', VInt m)])]"
    unfolding insert_motion_query_def by (blast dest: rows_of_insert_same)
  from assms(8) have t2: "rows_of ''temperature'' d2 = rows_of ''temperature'' d1"
    unfolding insert_motion_query_def by (rule rows_of_insert_other) simp
  have "db (snd (tick w s)) = d2"
    and "calls_since s (snd (tick w s)) =
        [GetTemperature, GpioInput PIR_PIN,
         Execute (insert_temperature_query t (now_isoformat w)), Commit,
         Execute (insert_motion_query m (now_isoformat w)), Commit, Sleep 1]"
    by (simp_all add: tick_def seq_def bind_def try_except_Exception_def
        tick_body_success[OF assms] sleep_def extcall_def called_def calls_since_def)
  with i j m1 t2 show ?thesis by simp
qed

text \<open>The scenario of the specification: 21.5 degrees and motion at midnight.\<close>
theorem tick_records_pair_witness:
  "\<exists>i j. rows_of ''temperature'' (db (snd (tick ex_tick (initial ex_db)))) =
        [(i, [(''timestamp'', VText ''2024-01-01T00:00:00''), (''temperature'', VReal 21.5)])]
    \<and> rows_of ''motion'' (db (snd (tick ex_tick (initial ex_db)))) =
        [(j, [(''timestamp'', VText ''2024-01-01T00:00:00''), (''motion_detected'', VInt 1)])]
    \<and> calls_since (initial ex_db) (snd (tick ex_tick (initial ex_db))) =
        [GetTemperature, GpioInput 23,
         Execute (insert_temperature_query 21.5 ''2024-01-01T00:00:00''), Commit,
         Execute (insert_motion_query 1 ''2024-01-01T00:00:00''), Commit, Sleep 1]"
proof -
  define d1 where "d1 = AList.update ''temperature''
     \<lparr>columns = [(''id'', ''INTEGER PRIMARY KEY AUTOINCREMENT''),
         (''timestamp'', ''TEXT NOT NULL''), (''temperature'', ''REAL NOT NULL'')],
      last_id = 1,
      rows = [(1, [(''timestamp'', VText ''2024-01-01T00:00:00''), (''temperature'', VReal 21.5)])]\<rparr> ex_db"
  define d2 where "d2 = AList.update ''motion''
     \<lparr>columns = [(''id'', ''INTEGER PRIMARY KEY AUTOINCREMENT''),
         (''timestamp'', ''TEXT NOT NULL''), (''motion_detected'', ''INTEGER NOT NULL'')],
      last_id = 1,
      rows = [(1, [(''timestamp'', VText ''2024-01-01T00:00:00''), (''motion_detected'', VInt 1)])]\<rparr> d1"
  have h1: "get_temperature ex_tick = Returns 21.5" and h2: "gpio_input ex_tick = Returns 1"
    and h3: "temperature_execute ex_tick = Returns ()" and h4: "temperature_commit ex_tick = Returns ()"
    and h5: "motion_execute ex_tick = Returns ()" and h6: "motion_commit ex_tick = Returns ()"
    by (simp_all add: ex_tick_def)
  have h7: "run_stmt (insert_temperature_query 21.5 (now_isoformat ex_tick)) (db (initial ex_db)) = Inr d1"
    by (simp add: insert_temperature_query_def ex_tick_def initial_def ex_db_def d1_def)
  have h8: "run_stmt (insert_motion_query 1 (now_isoformat ex_tick)) d1 = Inr d2"
    by (simp add: insert_motion_query_def ex_tick_def ex_db_def d1_def d2_def)
  have "rows_of ''temperature'' (db (initial ex_db)) = []" "rows_of ''motion'' (db (initial ex_db)) = []"
    "now_isoformat ex_tick = ''2024-01-01T00:00:00''"
    by (simp_all add: rows_of_def initial_def ex_db_def ex_tick_def)
  with tick_records_pair[OF h1 h2 h3 h4 h5 h6 h7 h8] show ?thesis
    by (simp add: PIR_PIN_def)
qed

subsection \<open>A tick whose sensor read fails\<close>

text \<open>
  Claim C3. In a tick whose sensor read fails (the temperature probe, or the motion pin
  after it), the database is left as it was, nothing but the reads and the cadence sleep
  is called (no insert, no second read), the error is printed, and the loop goes on with
  the next tick.
\<close>
theorem sensor_failure_skips_tick:
  assumes "get_temperature w = Fails e \<or> (\<exists>t. get_temperature w = Returns t \<and> gpio_input w = Fails e)"
    and "\<not> sleep_interrupted w"
  shows "\<exists>s'. tick w s = (Normal (), s') \<and> db s' = db s
     \<and> (calls_since s s' = [GetTemperature, Sleep 1]
        \<or> calls_since s s' = [GetTemperature, GpioInput PIR_PIN, Sleep 1])
     \<and> last (console s') = ErrorLine e
     \<and> main_loop (w # ws) s = main_loop ws s'"
  using assms
  by (auto simp: tick_def tick_body_def flow_defs calls_since_def)

theorem sensor_failure_skips_tick_witness:
  "\<exists>s'. tick ex_tick_no_sensor (initial ex_db) = (Normal (), s') \<and> db s' = ex_db
     \<and> calls_since (initial ex_db) s' = [GetTemperature, Sleep 1]
     \<and> last (console s') = ErrorLine ''sensor not ready''
     \<and> main_loop [ex_tick_no_sensor, ex_tick] (initial ex_db) = main_loop [ex_tick] s'"
proof -
  have h1: "get_temperature ex_tick_no_sensor = Fails ''sensor not ready'' \<or>
      (\<exists>t. get_temperature ex_tick_no_sensor = Returns t \<and> gpio_input ex_tick_no_sensor = Fails ''sensor not ready'')"
    by (simp add: ex_tick_no_sensor_def)
  have h2: "\<not> sleep_interrupted ex_tick_no_sensor"
    by (simp add: ex_tick_no_sensor_def ex_tick_def)
  from sensor_failure_skips_tick[OF h1 h2, of "initial ex_db" "[ex_tick]"]
  obtain s' where s': "tick ex_tick_no_sensor (initial ex_db) = (Normal (), s')" "db s' = db (initial ex_db)"
     "last (console s') = ErrorLine ''sensor not ready''"
     "main_loop [ex_tick_no_sensor, ex_tick] (initial ex_db) = main_loop [ex_tick] s'"
    by blast
  have "tick ex_tick_no_sensor (initial ex_db) =
     (Normal (), \<lparr>db = ex_db, console = [ErrorLine ''sensor not ready''],
        trace = [(GetTemperature, Err ''sensor not ready''), (Sleep 1, Ok)]\<rparr>)"
    by (simp add: tick_def tick_body_def flow_defs ex_tick_no_sensor_def ex_tick_def initial_def)
  with s' have "calls_since (initial ex_db) s' = [GetTemperature, Sleep 1]"
    by (auto simp: calls_since_def initial_def)
  with s' show ?thesis by (auto simp: initial_def)
qed

subsection \<open>The loop is left by the interrupt only\<close>

lemma slept_extcall: "c \<noteq> Sleep 1 \<Longrightarrow> maintains (slept n) (extcall c out)"
  by (simp add: maintains_def triple_def slept_def cadence_sleeps_def extcall_def called_def
      split: outcome.splits)

lemma slept_conn_execute: "maintains (slept n) (conn_execute net q)"
  by (simp add: maintains_def triple_def slept_def cadence_sleeps_def conn_execute_def called_def
      split: outcome.splits sum.splits)

lemma slept_print: "triple (slept n r) (print_msg m) (slept n)"
  by (simp add: triple_def slept_def cadence_sleeps_def print_msg_def)

lemma slept_print': "maintains (slept n) (print_msg m)"
  unfolding maintains_def by (rule slept_print)

lemmas slept_rules = slept_extcall slept_conn_execute slept_print slept_print'

lemma slept_guarded:
  "maintains (slept n) (try_except_Exception (tick_body w) (\<lambda>e. print_msg (ErrorLine e)))"
  unfolding tick_body_def insert_temperature_def insert_motion_def conn_commit_def
  by (intro maintains_rules slept_rules) simp_all

lemma tick_uninterrupted_eq:
  assumes "uninterrupted w"
  shows "tick w s = (Normal (), called (Sleep 1) Ok
     (snd (try_except_Exception (tick_body w) (\<lambda>e. print_msg (ErrorLine e)) s)))"
proof -
  define guarded where "guarded = try_except_Exception (tick_body w) (\<lambda>e. print_msg (ErrorLine e))"
  from assms have "fst (tick w s) = Normal ()" by (rule tick_uninterrupted)
  then have "fst (guarded s) = Normal ()"
    by (auto simp: tick_def guarded_def seq_def bind_def split: prod.splits ctl.splits)
  with assms show ?thesis
    by (simp add: tick_def guarded_def[symmetric] seq_def bind_def sleep_def extcall_def
        uninterrupted_def split_beta)
qed

lemma tick_uninterrupted_sleeps:
  assumes "uninterrupted w"
  shows "cadence_sleeps (snd (tick w s)) = Suc (cadence_sleeps s)"
proof -
  have "cadence_sleeps (snd (try_except_Exception (tick_body w) (\<lambda>e. print_msg (ErrorLine e)) s))
      = cadence_sleeps s"
    using maintainsD[OF slept_guarded, of "cadence_sleeps s" s w] by (simp add: slept_def)
  then show ?thesis
    by (simp add: tick_uninterrupted_eq[OF assms] cadence_sleeps_def called_def)
qed

lemma main_loop_step:
  assumes "fst (tick w s) = Normal ()"
  shows "main_loop (w # ws) s = main_loop ws (snd (tick w s))"
  using assms by (cases "tick w s") (simp add: seq_def bind_def)

lemma main_loop_stop:
  assumes "fst (tick w s) \<noteq> Normal ()"
  shows "fst (tick w s) = Raised KeyboardInterrupt \<and> main_loop (w # ws) s = tick w s"
  using assms tick_ctl[of w s] by (cases "tick w s") (auto simp add: seq_def bind_def)

lemma main_loop_uninterrupted_sleeps:
  "list_all uninterrupted ws \<Longrightarrow>
     cadence_sleeps (snd (main_loop ws s)) = cadence_sleeps s + length ws"
proof (induction ws arbitrary: s)
  case Nil
  show ?case by simp
next
  case (Cons w ws)
  then have u: "uninterrupted w" and us: "list_all uninterrupted ws" by simp_all
  from u have "main_loop (w # ws) s = main_loop ws (snd (tick w s))"
    by (intro main_loop_step tick_uninterrupted)
  with Cons.IH[OF us, of "snd (tick w s)"] tick_uninterrupted_sleeps[OF u, of s]
  show ?case by simp
qed

text \<open>
  Claim C4. The loop is left only by \<^verbatim>\<open>KeyboardInterrupt\<close>: whatever the sensors and
  the database do, \<open>main_loop\<close> is either still iterating or has been interrupted.
  When no call of a tick is interrupted, the tick returns having slept to the next
  cadence boundary, and the loop goes on with the remaining ticks in the state that tick
  left, whichever reads and inserts failed in it. A tick that does not return has been
  interrupted, and only then does the loop end, as that tick ended. A run of ticks none
  of which is interrupted leaves the loop iterating, with one cadence sleep returned
  for each of them.
\<close>
theorem loop_survives_tick_failures:
  "(fst (main_loop ws s) = Unfinished \<or> fst (main_loop ws s) = Raised KeyboardInterrupt)
   \<and> (list_all uninterrupted ws \<longrightarrow> fst (main_loop ws s) = Unfinished)
   \<and> (uninterrupted w \<longrightarrow> (\<exists>s'. tick w s = (Normal (), called (Sleep 1) Ok s')))
   \<and> (uninterrupted w \<longrightarrow> main_loop (w # ws) s = main_loop ws (snd (tick w s)))
   \<and> (fst (tick w s) \<noteq> Normal () \<longrightarrow>
        fst (tick w s) = Raised KeyboardInterrupt \<and> main_loop (w # ws) s = tick w s)
   \<and> (list_all uninterrupted ws \<longrightarrow>
        cadence_sleeps (snd (main_loop ws s)) = cadence_sleeps s + length ws)"
proof (intro conjI impI)
  show "fst (main_loop ws s) = Unfinished \<or> fst (main_loop ws s) = Raised KeyboardInterrupt"
    by (rule main_loop_ctl)
next
  assume "list_all uninterrupted ws"
  then show "fst (main_loop ws s) = Unfinished" by (rule main_loop_uninterrupted)
next
  assume "uninterrupted w"
  then show "\<exists>s'. tick w s = (Normal (), called (Sleep 1) Ok s')"
    by (blast dest: tick_uninterrupted_eq)
next
  assume "uninterrupted w"
  then show "main_loop (w # ws) s = main_loop ws (snd (tick w s))"
    by (intro main_loop_step tick_uninterrupted)
next
  assume "fst (tick w s) \<noteq> Normal ()"
  then show "fst (tick w s) = Raised KeyboardInterrupt" and "main_loop (w # ws) s = tick w s"
    using main_loop_stop[of w s ws] by blast+
next
  assume "list_all uninterrupted ws"
  then show "cadence_sleeps (snd (main_loop ws s)) = cadence_sleeps s + length ws"
    by (rule main_loop_uninterrupted_sleeps)
qed

theorem loop_survives_tick_failures_witness:
  "list_all uninterrupted [ex_tick_no_sensor, ex_tick_db_down, ex_tick]
   \<and> fst (main_loop [ex_tick_no_sensor, ex_tick_db_down, ex_tick] (initial ex_db)) = Unfinished
   \<and> (\<exists>s'. tick ex_tick_db_down (initial ex_db) = (Normal (), called (Sleep 1) Ok s'))
   \<and> main_loop [ex_tick_db_down, ex_tick_no_sensor, ex_tick_db_down, ex_tick] (initial ex_db) =
       main_loop [ex_tick_no_sensor, ex_tick_db_down, ex_tick] (snd (tick ex_tick_db_down (initial ex_db)))
   \<and> cadence_sleeps (snd (main_loop [ex_tick_no_sensor, ex_tick_db_down, ex_tick] (initial ex_db))) = 3"
proof -
  have u: "list_all uninterrupted [ex_tick_no_sensor, ex_tick_db_down, ex_tick]"
    by (simp add: uninterrupted_def ex_tick_no_sensor_def ex_tick_db_down_def ex_tick_def)
  then have "uninterrupted ex_tick_db_down" by simp
  moreover have "cadence_sleeps (initial ex_db) = 0"
    by (simp add: cadence_sleeps_def initial_def)
  ultimately show ?thesis
    using u loop_survives_tick_failures[of "[ex_tick_no_sensor, ex_tick_db_down, ex_tick]"
        "initial ex_db" ex_tick_db_down]
    by simp
qed

subsection \<open>Every error is printed\<close>

text \<open>
  Claim C8. Every error raised by a call made in schema creation, in either insert or in
  a tick's sensor reads is printed: if the messages of the errors raised so far are the
  diagnostics printed so far, in order, then they still are after
  \<open>create_tables_if_not_exists\<close>, after each insert, after a tick and after any number
  of ticks.
\<close>
theorem every_error_is_printed:
  assumes "all_logged s"
  shows "all_logged (snd (create_tables_if_not_exists a b c s))
     \<and> all_logged (snd (insert_temperature a b t ts s))
     \<and> all_logged (snd (insert_motion a b m ts s))
     \<and> all_logged (snd (tick w s))
     \<and> all_logged (snd (main_loop ws s))"
proof -
  have pre: "logged (Normal ()) s" using assms by (simp add: logged_def all_logged_def)
  have settle: "all_logged s'" if "logged (forget r) s'" and "\<forall>e. r \<noteq> Raised (Exception e)"
    for r :: "unit ctl" and s'
    using that by (cases r rule: pending.cases) (simp_all add: logged_def all_logged_def)
  have any: "within_try True (Normal ()) s" by (simp add: within_try_def)
  have ctl: "\<forall>e. fst (p s) \<noteq> Raised (Exception e)"
    if "triple (within_try True (Normal ())) p (after_try True)" for p :: "unit prog"
    using that any by (cases "fst (p s)") (auto simp: triple_def after_try_def)
  have log: "logged (forget (fst (p s))) (snd (p s))" if "maintains logged p" for p :: "unit prog"
    using that pre by (simp add: maintains_def triple_def)
  have "all_logged (snd (create_tables_if_not_exists a b c s))"
    by (rule settle[OF log ctl]) (simp_all add: logged_create_tables after_create_tables)
  moreover have "all_logged (snd (insert_temperature a b t ts s))"
    by (rule settle[OF log ctl]) (simp_all add: logged_insert_temperature after_insert_temperature)
  moreover have "all_logged (snd (insert_motion a b m ts s))"
    by (rule settle[OF log ctl]) (simp_all add: logged_insert_motion after_insert_motion)
  moreover have "all_logged (snd (tick w s))"
    by (rule settle[OF log ctl]) (simp_all add: logged_tick after_tick)
  moreover have "all_logged (snd (main_loop ws s))"
  proof (rule settle[OF log])
    show "maintains logged (main_loop ws)" by (rule logged_main_loop)
    from main_loop_ctl[of ws s] show "\<forall>e. fst (main_loop ws s) \<noteq> Raised (Exception e)" by auto
  qed
  ultimately show ?thesis by simp
qed

theorem every_error_is_printed_witness:
  "all_logged (initial ex_db)
   \<and> all_logged (snd (create_tables_if_not_exists (Fails ''access denied'') (Returns ()) (Returns ()) (initial ex_db)))
   \<and> console (snd (main_loop [ex_tick_no_sensor, ex_tick_db_down] (initial ex_db))) =
       [ErrorLine ''sensor not ready'', TemperatureLine 21.5,
        ErrorInsertingTemperature ''connection lost'', ErrorInsertingMotion ''connection lost'',
        MotionDetected]
   \<and> all_logged (snd (main_loop [ex_tick_no_sensor, ex_tick_db_down] (initial ex_db)))"
proof -
  have h: "all_logged (initial ex_db)"
    by (simp add: all_logged_def initial_def List.map_filter_simps)
  have "console (snd (main_loop [ex_tick_no_sensor, ex_tick_db_down] (initial ex_db))) =
       [ErrorLine ''sensor not ready'', TemperatureLine 21.5,
        ErrorInsertingTemperature ''connection lost'', ErrorInsertingMotion ''connection lost'',
        MotionDetected]"
    by (simp add: tick_def tick_body_def insert_temperature_def insert_motion_def flow_defs
        ex_tick_no_sensor_def ex_tick_db_down_def ex_tick_def initial_def)
  with h every_error_is_printed[OF h, of "Fails ''access denied''" "Returns ()" "Returns ()"
      "21.5" "''2024-01-01T00:00:00''" 1 ex_tick "[ex_tick_no_sensor, ex_tick_db_down]"]
  show ?thesis by simp
qed

subsection \<open>The inserts keep their errors to themselves\<close>

lemma tick_body_sensors_ok:
  assumes "get_temperature w = Returns t" and "gpio_input w = Returns m"
  shows "tick_body w s =
     seq (insert_temperature (temperature_execute w) (temperature_commit w) t (now_isoformat w))
    (seq (insert_motion (motion_execute w) (motion_commit w) m (now_isoformat w))
         (if m \<noteq> 0 then print_msg MotionDetected else print_msg NoMotion))
     (s\<lparr>console := console s @ [TemperatureLine t],
        trace := trace s @ [(GetTemperature, Ok), (GpioInput PIR_PIN, Ok)]\<rparr>)"
  by (simp add: tick_body_def assms bind_def seq_def extcall_def ret_def print_msg_def called_def)

lemma insert_temperature_ctl:
  "fst (insert_temperature a b t ts s) = Normal () \<or>
   fst (insert_temperature a b t ts s) = Raised KeyboardInterrupt"
proof -
  have "after_try True (forget (fst (insert_temperature a b t ts s))) (snd (insert_temperature a b t ts s))"
    using after_insert_temperature[of a True b t ts] by (simp add: triple_def within_try_def)
  then show ?thesis by (cases "fst (insert_temperature a b t ts s)") (simp_all add: after_try_def)
qed

lemma insert_motion_ctl:
  "fst (insert_motion a b m ts s) = Normal () \<or>
   fst (insert_motion a b m ts s) = Raised KeyboardInterrupt"
proof -
  have "after_try True (forget (fst (insert_motion a b m ts s))) (snd (insert_motion a b m ts s))"
    using after_insert_motion[of a True b m ts] by (simp add: triple_def within_try_def)
  then show ?thesis by (cases "fst (insert_motion a b m ts s)") (simp_all add: after_try_def)
qed

lemma insert_temperature_returns:
  assumes "a \<noteq> Interrupt" and "b \<noteq> Interrupt"
  shows "fst (insert_temperature a b t ts s) = Normal ()"
proof -
  have "after_try False (forget (fst (insert_temperature a b t ts s))) (snd (insert_temperature a b t ts s))"
    using after_insert_temperature[of a False b t ts] assms by (simp add: triple_def within_try_def)
  then show ?thesis by (cases "fst (insert_temperature a b t ts s)") (simp_all add: after_try_def)
qed

lemma insert_motion_returns:
  assumes "a \<noteq> Interrupt" and "b \<noteq> Interrupt"
  shows "fst (insert_motion a b m ts s) = Normal ()"
proof -
  have "after_try False (forget (fst (insert_motion a b m ts s))) (snd (insert_motion a b m ts s))"
    using after_insert_motion[of a False b m ts] assms by (simp add: triple_def within_try_def)
  then show ?thesis by (cases "fst (insert_motion a b m ts s)") (simp_all add: after_try_def)
qed

text \<open>
  Claim C10. Neither insert ever raises an \<^verbatim>\<open>Exception\<close>: each returns normally unless
  the operator's interrupt arrives during one of its calls. So in a tick whose sensor
  reads returned, \<open>insert_motion\<close> runs with the tick's timestamp in the state that
  \<open>insert_temperature\<close> left, whether or not that insert failed; and when the
  temperature statement fails while the motion insert goes through, the \<^verbatim>\<open>motion\<close>
  table gains its row and the \<^verbatim>\<open>temperature\<close> table gains none.
\<close>
theorem inserts_swallow_errors:
  "(fst (insert_temperature a b t ts s) = Normal () \<or>
      fst (insert_temperature a b t ts s) = Raised KeyboardInterrupt)
   \<and> (fst (insert_motion a b m ts s) = Normal () \<or>
      fst (insert_motion a b m ts s) = Raised KeyboardInterrupt)
   \<and> (a \<noteq> Interrupt \<and> b \<noteq> Interrupt \<longrightarrow>
        fst (insert_temperature a b t ts s) = Normal () \<and> fst (insert_motion a b m ts s) = Normal ())
   \<and> (get_temperature w = Returns t \<and> gpio_input w = Returns m \<and>
      temperature_execute w \<noteq> Interrupt \<and> temperature_commit w \<noteq> Interrupt \<longrightarrow>
        tick_body w s =
          seq (insert_motion (motion_execute w) (motion_commit w) m (now_isoformat w))
              (if m \<noteq> 0 then print_msg MotionDetected else print_msg NoMotion)
            (snd (insert_temperature (temperature_execute w) (temperature_commit w) t (now_isoformat w)
               (s\<lparr>console := console s @ [TemperatureLine t],
                  trace := trace s @ [(GetTemperature, Ok), (GpioInput PIR_PIN, Ok)]\<rparr>))))
   \<and> (get_temperature w = Returns t \<and> gpio_input w = Returns m \<and>
      temperature_execute w = Fails e \<and>
      motion_execute w = Returns () \<and> motion_commit w = Returns () \<and>
      run_stmt (insert_motion_query m (now_isoformat w)) (db s) = Inr d \<longrightarrow>
        db (snd (tick w s)) = d
        \<and> rows_of ''temperature'' d = rows_of ''temperature'' (db s)
        \<and> (\<exists>j. rows_of ''motion'' d = rows_of ''motion'' (db s) @
              [(j, [(''timestamp'', VText (now_isoformat w)), (''motion_detected'', VInt m)])])
        \<and> ErrorInsertingTemperature e \<in> set (console (snd (tick w s))))"
proof (intro conjI impI)
  assume h: "get_temperature w = Returns t \<and> gpio_input w = Returns m \<and>
      temperature_execute w \<noteq> Interrupt \<and> temperature_commit w \<noteq> Interrupt"
  define s0 where "s0 = s\<lparr>console := console s @ [TemperatureLine t],
      trace := trace s @ [(GetTemperature, Ok), (GpioInput PIR_PIN, Ok)]\<rparr>"
  from h have "fst (insert_temperature (temperature_execute w) (temperature_commit w) t (now_isoformat w) s0) = Normal ()"
    by (simp add: insert_temperature_returns)
  with h show "tick_body w s =
          seq (insert_motion (motion_execute w) (motion_commit w) m (now_isoformat w))
              (if m \<noteq> 0 then print_msg MotionDetected else print_msg NoMotion)
            (snd (insert_temperature (temperature_execute w) (temperature_commit w) t (now_isoformat w)
               (s\<lparr>console := console s @ [TemperatureLine t],
                  trace := trace s @ [(GetTemperature, Ok), (GpioInput PIR_PIN, Ok)]\<rparr>)))"
    unfolding s0_def[symmetric]
    by (simp add: tick_body_sensors_ok[of w t m] s0_def[symmetric] seq_def[of "insert_temperature _ _ _ _"] bind_def split_beta)
next
  assume h: "get_temperature w = Returns t \<and> gpio_input w = Returns m \<and>
      temperature_execute w = Fails e \<and>
      motion_execute w = Returns () \<and> motion_commit w = Returns () \<and>
      run_stmt (insert_motion_query m (now_isoformat w)) (db s) = Inr d"
  then have r: "run_stmt (InsertInto ''motion''
       [(''timestamp'', VText (now_isoformat w)), (''motion_detected'', VInt m)]) (db s) = Inr d"
    by (simp add: insert_motion_query_def)
  from h show "db (snd (tick w s)) = d"
    by (simp add: tick_def tick_body_def insert_temperature_def insert_motion_def flow_defs)
  from r show "rows_of ''temperature'' d = rows_of ''temperature'' (db s)"
    by (rule rows_of_insert_other) simp
  from r show "\<exists>j. rows_of ''motion'' d = rows_of ''motion'' (db s) @
              [(j, [(''timestamp'', VText (now_isoformat w)), (''motion_detected'', VInt m)])]"
    by (rule rows_of_insert_same)
  from h show "ErrorInsertingTemperature e \<in> set (console (snd (tick w s)))"
    by (simp add: tick_def tick_body_def insert_temperature_def insert_motion_def flow_defs)
qed (simp_all add: insert_temperature_ctl insert_motion_ctl insert_temperature_returns insert_motion_returns)

text \<open>A tick in which only the temperature statement is lost on the way.\<close>
theorem inserts_swallow_errors_witness:
  "fst (insert_temperature (Fails ''connection lost'') (Returns ()) 21.5 ''2024-01-01T00:00:00''
          (initial ex_db)) = Normal ()
   \<and> db (snd (tick ex_tick_conn_lost (initial ex_db))) =
       AList.update ''motion''
         \<lparr>columns = [(''id'', ''INTEGER PRIMARY KEY AUTOINCREMENT''),
            (''timestamp'', ''TEXT NOT NULL''), (''motion_detected'', ''INTEGER NOT NULL'')],
          last_id = 1,
          rows = [(1, [(''timestamp'', VText ''2024-01-01T00:00:00''), (''motion_detected'', VInt 1)])]\<rparr>
         ex_db
   \<and> rows_of ''temperature'' (db (snd (tick ex_tick_conn_lost (initial ex_db)))) = []
   \<and> ErrorInsertingTemperature ''connection lost''
        \<in> set (console (snd (tick ex_tick_conn_lost (initial ex_db))))"
proof -
  define d where "d = AList.update ''motion''
         \<lparr>columns = [(''id'', ''INTEGER PRIMARY KEY AUTOINCREMENT''),
            (''timestamp'', ''TEXT NOT NULL''), (''motion_detected'', ''INTEGER NOT NULL'')],
          last_id = 1,
          rows = [(1, [(''timestamp'', VText ''2024-01-01T00:00:00''), (''motion_detected'', VInt 1)])]\<rparr>
         ex_db"
  have h: "get_temperature ex_tick_conn_lost = Returns 21.5 \<and> gpio_input ex_tick_conn_lost = Returns 1 \<and>
      temperature_execute ex_tick_conn_lost = Fails ''connection lost'' \<and>
      motion_execute ex_tick_conn_lost = Returns () \<and> motion_commit ex_tick_conn_lost = Returns () \<and>
      run_stmt (insert_motion_query 1 (now_isoformat ex_tick_conn_lost)) (db (initial ex_db)) = Inr d"
    by (simp add: ex_tick_conn_lost_def ex_tick_def insert_motion_query_def initial_def ex_db_def d_def)
  have n: "Fails ''connection lost'' \<noteq> (Interrupt :: unit outcome) \<and> Returns () \<noteq> (Interrupt :: unit outcome)"
    by simp
  have r: "rows_of ''temperature'' (db (initial ex_db)) = []"
    by (simp add: rows_of_def initial_def ex_db_def)
  from inserts_swallow_errors[of "Fails ''connection lost''" "Returns ()" "21.5"
      "''2024-01-01T00:00:00''" "initial ex_db" 1 ex_tick_conn_lost "''connection lost''" d] h n r
  show ?thesis unfolding d_def[symmetric] by simp
qed

subsection \<open>No reconnection, no retry\<close>



subsection \<open>Schema creation\<close>

lemma run_create:
  "run_stmt (CreateTableIfNotExists name cols) d =
     Inr (if name \<in> fst ` set d then d else d @ [(name, \<lparr>columns = cols, last_id = 0, rows = []\<rparr>)])"
  by (auto simp: map_of_eq_None_iff[symmetric] split: option.splits)

lemma schema_ensure_eq:
  "schema_ensure s = (Normal (), s\<lparr>db := ensured (db s), console := console s @ [TablesAreReady],
     trace := trace s @ [(Execute create_motion_table_query, Ok),
       (Execute create_temperature_table_query, Ok), (Commit, Ok)]\<rparr>)"
  unfolding schema_ensure_def create_tables_if_not_exists_def
  by (simp add: flow_defs run_create create_motion_table_query_def
      create_temperature_table_query_def ensured_def Let_def del: run_stmt.simps)

lemma ensured_names: "fst ` set (ensured d) = fst ` set d \<union> {''motion'', ''temperature''}"
  by (auto simp: ensured_def Let_def)

lemma ensured_idem: "ensured (ensured d) = ensured d"
proof -
  have "''motion'' \<in> fst ` set (ensured d)" "''temperature'' \<in> fst ` set (ensured d)"
    by (simp_all add: ensured_names)
  then show ?thesis by (subst (1) ensured_def) (simp add: Let_def)
qed

lemma ensured_distinct: "distinct (map fst d) \<Longrightarrow> distinct (map fst (ensured d))"
  by (auto simp: ensured_def Let_def)

lemma create_tables_db_cases:
  "db (snd (create_tables_if_not_exists a b c s)) = db s
   \<or> db (snd (create_tables_if_not_exists a b c s)) =
       (if ''motion'' \<in> fst ` set (db s) then db s
        else db s @ [(''motion'', \<lparr>columns = [(''id'', ''INTEGER PRIMARY KEY AUTOINCREMENT''),
                   (''timestamp'', ''TEXT NOT NULL''), (''motion_detected'', ''INTEGER NOT NULL'')],
                   last_id = 0, rows = []\<rparr>)])
   \<or> db (snd (create_tables_if_not_exists a b c s)) = ensured (db s)"
  unfolding create_tables_if_not_exists_def
  by (simp add: flow_defs run_create create_motion_table_query_def
      create_temperature_table_query_def ensured_def Let_def del: run_stmt.simps
      split: outcome.splits)

lemma create_tables_keeps:
  assumes "map_of (db s) name = Some tb"
  shows "map_of (db (snd (create_tables_if_not_exists a b c s))) name = Some tb"
  using create_tables_db_cases[of a b c s] assms
  by (auto simp: ensured_def Let_def map_add_Some_iff)

lemma create_tables_after_ensure:
  assumes "''motion'' \<in> fst ` set (db s)" and "''temperature'' \<in> fst ` set (db s)"
  shows "db (snd (create_tables_if_not_exists a b c s)) = db s"
  using create_tables_db_cases[of a b c s] assms by (auto simp: ensured_def Let_def)

text \<open>
  Claim C5. Schema creation is idempotent. Run on a connection that works, a second
  \<open>create_tables_if_not_exists\<close> leaves the database exactly as the first left it and
  reports success again; indeed after one successful run no later run changes the
  database, whatever happens to its calls. One run adds the names \<^verbatim>\<open>motion\<close> and
  \<^verbatim>\<open>temperature\<close> where they are missing and no other; table names that were distinct
  stay distinct; and a table that exists is never altered, by any run.
\<close>
theorem schema_ensure_idempotent:
  "db (snd (schema_ensure (snd (schema_ensure s)))) = db (snd (schema_ensure s))
   \<and> fst (schema_ensure (snd (schema_ensure s))) = Normal ()
   \<and> console (snd (schema_ensure (snd (schema_ensure s)))) =
       console (snd (schema_ensure s)) @ [TablesAreReady]
   \<and> db (snd (create_tables_if_not_exists a b c (snd (schema_ensure s)))) = db (snd (schema_ensure s))
   \<and> fst ` set (db (snd (schema_ensure s))) = fst ` set (db s) \<union> {''motion'', ''temperature''}
   \<and> (distinct (map fst (db s)) \<longrightarrow> distinct (map fst (db (snd (schema_ensure s)))))
   \<and> (map_of (db s) name = Some tb \<longrightarrow>
        map_of (db (snd (create_tables_if_not_exists a b c s))) name = Some tb)"
proof (intro conjI impI)
  show "db (snd (create_tables_if_not_exists a b c (snd (schema_ensure s)))) = db (snd (schema_ensure s))"
    by (rule create_tables_after_ensure) (simp_all add: schema_ensure_eq ensured_names)
qed (simp_all add: schema_ensure_eq ensured_idem ensured_names ensured_distinct create_tables_keeps)

text \<open>A database that already holds a temperature table with one row.\<close>
theorem schema_ensure_idempotent_witness:
  "distinct (map fst (db (initial ex_db_old)))
   \<and> map fst (db (snd (schema_ensure (snd (schema_ensure (initial ex_db_old)))))) =
       [''temperature'', ''motion'']
   \<and> rows_of ''temperature'' (db (snd (schema_ensure (snd (schema_ensure (initial ex_db_old)))))) =
       [(1, [(''timestamp'', VText ''2023-12-31T23:59:59''), (''temperature'', VReal 20)])]
   \<and> distinct (map fst (db (snd (schema_ensure (initial ex_db_old)))))
   \<and> map_of (db (snd (create_tables_if_not_exists (Returns ()) (Fails ''timeout'') (Returns ())
        (initial ex_db_old)))) ''temperature'' = map_of ex_db_old ''temperature''"
proof -
  have h: "distinct (map fst (db (initial ex_db_old)))"
    by (simp add: initial_def ex_db_old_def)
  have k: "map_of (db (initial ex_db_old)) ''temperature'' = Some (snd (hd ex_db_old))"
    by (simp add: initial_def ex_db_old_def)
  have e: "map fst (db (snd (schema_ensure (initial ex_db_old)))) = [''temperature'', ''motion'']"
    "rows_of ''temperature'' (db (snd (schema_ensure (initial ex_db_old)))) =
       [(1, [(''timestamp'', VText ''2023-12-31T23:59:59''), (''temperature'', VReal 20)])]"
    by (simp_all add: schema_ensure_eq ensured_def initial_def ex_db_old_def rows_of_def)
  from schema_ensure_idempotent[of "initial ex_db_old" "Returns ()" "Fails ''timeout''" "Returns ()"
      "''temperature''" "snd (hd ex_db_old)"] h k e
  show ?thesis by (simp add: ex_db_old_def initial_def)
qed

subsection \<open>Startup\<close>

lemma startup_missing_config:
  "missing_config w \<Longrightarrow> startup w s =
     (Raised (Exception ''Missing environment variables for API_KEY, DATABASE_URL, or DB_NAME''), s)"
  by (simp add: startup_def missing_config_def raise_def)

lemma startup_no_connection:
  assumes "\<not> missing_config w" and "connect w = Fails e"
  shows "startup w s = (Raised SystemExit, s\<lparr>console := console s @ [FailedToConnect e],
     trace := trace s @ [(Connect (connection_string w), Err e)]\<rparr>)"
  using assms by (simp add: startup_def missing_config_def flow_defs)

lemma startup_to_schema:
  assumes "\<not> missing_config w" and "connect w = Returns ()" and "sensor_init w = Returns ()"
    and "gpio_setup w = Returns ()"
  shows "startup w s =
     create_tables_if_not_exists (create_motion_execute w) (create_temperature_execute w)
       (create_commit w)
       (s\<lparr>console := console s @ [ConnectedToSQLiteCloud],
          trace := trace s @ [(Connect (connection_string w), Ok), (SensorInit, Ok),
            (GpioSetmode, Ok), (GpioSetup PIR_PIN, Ok)]\<rparr>)"
  using assms by (simp add: startup_def missing_config_def flow_defs)


lemma main_block_main_try:
  "main_block w =
     try_finally (try_except_KeyboardInterrupt (main_try w) (print_msg Quit))
       (seq (extcall GpioCleanup (Returns ()))
       (seq (extcall ConnClose (Returns ()))
            (print_msg CleanedUp)))"
  by (simp add: main_block_def main_try_def)

lemma main_try_ctl:
  "fst (main_try w s) = Unfinished \<or> fst (main_try w s) = Raised KeyboardInterrupt"
proof (cases "startup_sleep_interrupted w")
  case True
  then show ?thesis by (simp add: main_try_def flow_defs)
next
  case False
  define s1 where "s1 = s\<lparr>trace := trace s @ [(Sleep 2, Ok)], console := console s @ [SystemTest, Ready]\<rparr>"
  from False have "main_try w s = main_loop (ticks w) s1"
    by (simp add: main_try_def flow_defs s1_def)
  with main_loop_ctl[of "ticks w" s1] show ?thesis by simp
qed

lemma main_block_Unfinished:
  assumes "fst (main_try w s) = Unfinished"
  shows "main_block w s = (Unfinished, snd (main_try w s))"
  using assms
  by (simp add: main_block_main_try try_finally_def try_except_KeyboardInterrupt_def split_beta
      split: prod.splits ctl.splits)

lemma main_block_interrupted:
  assumes "fst (main_try w s) = Raised KeyboardInterrupt"
  shows "main_block w s = (Normal (), (snd (main_try w s))
     \<lparr>console := console (snd (main_try w s)) @ [Quit, CleanedUp],
      trace := trace (snd (main_try w s)) @ [(GpioCleanup, Ok), (ConnClose, Ok)]\<rparr>)"
  using assms
  by (simp add: main_block_main_try try_finally_def try_except_KeyboardInterrupt_def split_beta
      seq_def bind_def extcall_def print_msg_def called_def split: prod.splits ctl.splits)

lemma main_block_ctl: "fst (main_block w s) = Unfinished \<or> fst (main_block w s) = Normal ()"
  using main_try_ctl[of w s] main_block_Unfinished[of w s] main_block_interrupted[of w s]
  by auto

lemma run_after_startup:
  assumes "fst (startup w (initial d)) = Normal ()"
  shows "run w d = (case main_block w (snd (startup w (initial d))) of
       (Unfinished, s) \<Rightarrow> (Running, s) | (r, s) \<Rightarrow> (Exited 0, s))"
  using assms main_block_ctl[of w "snd (startup w (initial d))"]
  by (auto simp: run_def program_def seq_def bind_def split: prod.splits ctl.splits)

text \<open>
  Claim C6. When \<^verbatim>\<open>API_KEY\<close>, \<^verbatim>\<open>DATABASE_URL\<close> or \<^verbatim>\<open>DB_NAME\<close> is unset or empty, the
  script ends at once with the uncaught \<^verbatim>\<open>ValueError\<close> (a traceback, exit status 1),
  having made no call at all: no connection, no sensor, no GPIO pin.
\<close>
theorem missing_config_is_fatal:
  assumes "py_not (API_KEY w) \<or> py_not (DATABASE_URL w) \<or> py_not (DB_NAME w)"
  shows "run w d =
     (Exited 1,
      \<lparr>db = d,
       console = [Traceback (Exception
          ''Missing environment variables for API_KEY, DATABASE_URL, or DB_NAME'')],
       trace = []\<rparr>)"
  using assms
  by (simp add: run_def program_def seq_def bind_def startup_missing_config missing_config_def
      initial_def)

theorem missing_config_is_fatal_witness:
  "py_not (DB_NAME ex_world_no_name)
   \<and> fst (run ex_world_no_name ex_db) = Exited 1
   \<and> trace (snd (run ex_world_no_name ex_db)) = []"
proof -
  have h: "py_not (API_KEY ex_world_no_name) \<or> py_not (DATABASE_URL ex_world_no_name) \<or>
      py_not (DB_NAME ex_world_no_name)"
    by (simp add: ex_world_no_name_def)
  have "py_not (DB_NAME ex_world_no_name)" by (simp add: ex_world_no_name_def)
  with missing_config_is_fatal[OF h, of ex_db] show ?thesis by simp
qed

text \<open>
  Claim C7, as stated, fails twice. A schema error at startup does not end the process:
  with the first \<^verbatim>\<open>CREATE TABLE\<close> refused, the script prints the error, goes into the
  loop and is still running after a tick whose inserts find no table. And when the first
  connection cannot be opened, the script leaves through \<^verbatim>\<open>exit()\<close>, whose status is 0.
\<close>
theorem fatal_startup_counterexample:
  "create_motion_execute ex_world_schema_denied = Fails ''access denied''
   \<and> fst (run ex_world_schema_denied []) = Running
   \<and> console (snd (run ex_world_schema_denied [])) =
       [ConnectedToSQLiteCloud, FailedToCreateTables ''access denied'', SystemTest, Ready,
        TemperatureLine 21.5, ErrorInsertingTemperature ''no such table: temperature'',
        ErrorInsertingMotion ''no such table: motion'', MotionDetected]
   \<and> connect ex_world_unreachable = Fails ''host unreachable''
   \<and> fst (run ex_world_unreachable []) = Exited 0"
  by (simp add: run_def program_def startup_def main_block_def create_tables_if_not_exists_def
      tick_def tick_body_def insert_temperature_def insert_motion_def flow_defs
      insert_temperature_query_def insert_motion_query_def
      ex_world_schema_denied_def ex_world_unreachable_def ex_world_def ex_tick_def initial_def)

lemma create_tables_fails:
  assumes "schema_fails w e"
  shows "fst (create_tables_if_not_exists (create_motion_execute w) (create_temperature_execute w)
            (create_commit w) s) = Normal ()
     \<and> console (snd (create_tables_if_not_exists (create_motion_execute w)
            (create_temperature_execute w) (create_commit w) s)) =
         console s @ [FailedToCreateTables e]"
  using assms unfolding schema_fails_def create_tables_if_not_exists_def
  by (auto simp add: flow_defs run_create create_motion_table_query_def
      create_temperature_table_query_def simp del: run_stmt.simps)

text \<open>
  Claim C7, amended. A configuration error ends the process with a traceback and exit
  status 1. A failure to open the first connection prints the error and ends the process
  at once, before any sensor is touched. A schema error at startup is printed and does
  not end the process: startup returns normally and the script enters its main block, so
  that it is either still running or has exited with status 0 after an interrupt.
\<close>
theorem fatal_startup_errors:
  "(missing_config w \<longrightarrow>
      fst (run w d) = Exited 1 \<and>
      console (snd (run w d)) = [Traceback (Exception
        ''Missing environment variables for API_KEY, DATABASE_URL, or DB_NAME'')])
   \<and> (\<not> missing_config w \<and> connect w = Fails e \<longrightarrow>
      (\<exists>n. fst (run w d) = Exited n) \<and>
      console (snd (run w d)) = [FailedToConnect e] \<and>
      trace (snd (run w d)) = [(Connect (connection_string w), Err e)])
   \<and> (\<not> missing_config w \<and> connect w = Returns () \<and> sensor_init w = Returns () \<and>
      gpio_setup w = Returns () \<and> schema_fails w e \<longrightarrow>
      (\<exists>s1. startup w (initial d) = (Normal (), s1) \<and>
         console s1 = [ConnectedToSQLiteCloud, FailedToCreateTables e] \<and>
         program w (initial d) = main_block w s1) \<and>
      (fst (run w d) = Running \<or> fst (run w d) = Exited 0))"
proof (intro conjI impI)
  assume "missing_config w"
  then show "fst (run w d) = Exited 1" 
    and "console (snd (run w d)) = [Traceback (Exception
        ''Missing environment variables for API_KEY, DATABASE_URL, or DB_NAME'')]"
    by (simp_all add: run_def program_def seq_def bind_def startup_missing_config initial_def)
next
  assume h: "\<not> missing_config w \<and> connect w = Fails e"
  then have "run w d = (Exited 0, (initial d)\<lparr>console := console (initial d) @ [FailedToConnect e],
     trace := trace (initial d) @ [(Connect (connection_string w), Err e)]\<rparr>)"
    by (simp add: run_def program_def seq_def bind_def startup_no_connection)
  then show "\<exists>n. fst (run w d) = Exited n"
    and "console (snd (run w d)) = [FailedToConnect e]"
    and "trace (snd (run w d)) = [(Connect (connection_string w), Err e)]"
    by (simp_all add: initial_def)
next
  assume h: "\<not> missing_config w \<and> connect w = Returns () \<and> sensor_init w = Returns () \<and>
      gpio_setup w = Returns () \<and> schema_fails w e"
  define s0 where "s0 = (initial d)\<lparr>console := console (initial d) @ [ConnectedToSQLiteCloud],
          trace := trace (initial d) @ [(Connect (connection_string w), Ok), (SensorInit, Ok),
            (GpioSetmode, Ok), (GpioSetup PIR_PIN, Ok)]\<rparr>"
  from h have st: "startup w (initial d) =
     create_tables_if_not_exists (create_motion_execute w) (create_temperature_execute w)
       (create_commit w) s0"
    unfolding s0_def by (simp add: startup_to_schema)
  have c0: "console s0 = [ConnectedToSQLiteCloud]"
    by (simp add: s0_def initial_def)
  from h create_tables_fails[of w e s0]
  have n: "fst (startup w (initial d)) = Normal ()"
    and c: "console (snd (startup w (initial d))) = [ConnectedToSQLiteCloud, FailedToCreateTables e]"
    by (simp_all add: st c0)
  from n have eq: "startup w (initial d) = (Normal (), snd (startup w (initial d)))"
    by (metis prod.collapse)
  from n have "program w (initial d) = main_block w (snd (startup w (initial d)))"
    by (cases "startup w (initial d)") (simp add: program_def seq_def bind_def)
  with eq c show "\<exists>s1. startup w (initial d) = (Normal (), s1) \<and>
         console s1 = [ConnectedToSQLiteCloud, FailedToCreateTables e] \<and>
         program w (initial d) = main_block w s1"
    by blast
  from main_block_ctl[of w "snd (startup w (initial d))"] run_after_startup[OF n]
  show "fst (run w d) = Running \<or> fst (run w d) = Exited 0"
    by (auto split: prod.splits ctl.splits)
qed

theorem fatal_startup_errors_witness:
  "missing_config ex_world_no_name \<and> fst (run ex_world_no_name []) = Exited 1
   \<and> \<not> missing_config ex_world_unreachable
   \<and> console (snd (run ex_world_unreachable [])) = [FailedToConnect ''host unreachable'']
   \<and> schema_fails ex_world_schema_denied ''access denied''
   \<and> (fst (run ex_world_schema_denied []) = Running \<or> fst (run ex_world_schema_denied []) = Exited 0)"
proof -
  have a: "missing_config ex_world_no_name"
    by (simp add: missing_config_def ex_world_no_name_def)
  have b: "\<not> missing_config ex_world_unreachable \<and> connect ex_world_unreachable = Fails ''host unreachable''"
    by (simp add: missing_config_def ex_world_unreachable_def ex_world_def)
  have c: "\<not> missing_config ex_world_schema_denied \<and> connect ex_world_schema_denied = Returns () \<and>
      sensor_init ex_world_schema_denied = Returns () \<and>
      gpio_setup ex_world_schema_denied = Returns () \<and>
      schema_fails ex_world_schema_denied ''access denied''"
    by (simp add: missing_config_def schema_fails_def ex_world_schema_denied_def ex_world_def)
  from fatal_startup_errors[where w = ex_world_no_name and d = "[]"] a
  have 1: "fst (run ex_world_no_name []) = Exited 1" by blast
  from fatal_startup_errors[where w = ex_world_unreachable and e = "''host unreachable''" and d = "[]"] b
  have 2: "console (snd (run ex_world_unreachable [])) = [FailedToConnect ''host unreachable'']"
    by blast
  from fatal_startup_errors[where w = ex_world_schema_denied and e = "''access denied''" and d = "[]"] c
  have 3: "fst (run ex_world_schema_denied []) = Running \<or> fst (run ex_world_schema_denied []) = Exited 0"
    by blast
  from a b c 1 2 3 show ?thesis by simp
qed

subsection \<open>Shutdown\<close>













end
